theory Spec2Isabelle
  imports Main "HOL-Library.Sublist"
begin

section \<open>JavaScript values, promises and errors\<close>

text \<open>
  The helper module \<^verbatim>\<open>runtime/helpers.js\<close> drives a browser through a WebDriver
  client. The client is a dependency of the repository; the few primitives the helpers
  call (\<^verbatim>\<open>findElement\<close>, \<^verbatim>\<open>findElements\<close>, \<^verbatim>\<open>executeScript\<close>, \<^verbatim>\<open>wait\<close>, \<^verbatim>\<open>get\<close>,
  \<^verbatim>\<open>deleteAllCookies\<close>) are modelled after the client's documented behaviour. The
  rejections that occur are those caused by the page (no element matches, an injected
  script throws, a wait expires) and the refusal of a cookie deletion by the browser.

  Strings are lists of 8-bit characters, so a string stands for a JavaScript string whose
  code units are all below 256.
\<close>

datatype error =
    NoSuchElementError
  | InvalidSelectorError
  | JavascriptError string
  | TypeError string
  | WebDriverError string
    \<comment> \<open>the browser refuses a command\<close>
  | TimeoutError string nat
    \<comment> \<open>the message handed to \<^verbatim>\<open>driver.wait\<close>, and the elapsed milliseconds the client
        appends to it (\<^verbatim>\<open>Wait timed out after <elapsed>ms\<close>)\<close>

type_synonym style = "(string \<times> string) list"

record node =
  ident :: nat
  textContent :: string
  innerText :: string
  attributes :: "(string \<times> string) list"
  displayed :: bool
  beforeStyle :: "style option"
    \<comment> \<open>\<^verbatim>\<open>window.getComputedStyle(el, ':before')\<close>; \<open>None\<close> is a null style object\<close>
  afterStyle :: "style option"

datatype jsval =
    Undefined
  | Null
  | Bool bool
  | Str string
  | Element node
  | Array "jsval list"
  | Promise "error + jsval"
    \<comment> \<open>a promise together with the outcome it settles to: \<open>Inl\<close> rejected, \<open>Inr\<close> resolved\<close>

fun truthy :: "jsval \<Rightarrow> bool" where
  "truthy Undefined = False"
| "truthy Null = False"
| "truthy (Bool b) = b"
| "truthy (Str s) = (s \<noteq> [])"
| "truthy (Element n) = True"
| "truthy (Array xs) = True"
| "truthy (Promise r) = True"

text \<open>Property access \<^verbatim>\<open>v[i]\<close>. A promise object has no indexed properties.\<close>

fun js_index :: "jsval \<Rightarrow> nat \<Rightarrow> error + jsval" where
  "js_index Undefined i = Inl (TypeError ''Cannot read properties of undefined'')"
| "js_index Null i = Inl (TypeError ''Cannot read properties of null'')"
| "js_index (Bool b) i = Inr Undefined"
| "js_index (Str s) i = Inr (if i < length s then Str [s ! i] else Undefined)"
| "js_index (Element n) i = Inr Undefined"
| "js_index (Array xs) i = Inr (if i < length xs then xs ! i else Undefined)"
| "js_index (Promise r) i = Inr Undefined"

text \<open>\<^verbatim>\<open>await v\<close>: the outcome of a promise, or the value itself when it is no promise.\<close>

fun await :: "jsval \<Rightarrow> error + jsval" where
  "await (Promise r) = r"
| "await v = Inr v"

text \<open>
  The promise an \<^verbatim>\<open>async function\<close> returns: rejected when the body throws, resolved
  with the returned value otherwise; a returned promise is adopted.
\<close>

definition async :: "error + jsval \<Rightarrow> jsval" where
  "async body = (case body of Inl e \<Rightarrow> Promise (Inl e) | Inr v \<Rightarrow> Promise (await v))"

text \<open>An optional string argument: \<open>None\<close> is \<^verbatim>\<open>undefined\<close> (the argument was omitted).\<close>

definition truthy_str :: "string option \<Rightarrow> bool" where
  "truthy_str content = (case content of None \<Rightarrow> False | Some s \<Rightarrow> s \<noteq> [])"

text \<open>\<^verbatim>\<open>s === content\<close> for a string \<open>s\<close>.\<close>

definition strict_eq_str :: "string \<Rightarrow> string option \<Rightarrow> bool" where
  "strict_eq_str s content = (content = Some s)"

text \<open>\<^verbatim>\<open>String.prototype.trim\<close>: white space and line terminators below code unit 256.\<close>

definition is_white_space :: "char \<Rightarrow> bool" where
  "is_white_space c = (of_char c \<in> {9, 10, 11, 12, 13, 32, 160 :: nat})"

definition trim :: "string \<Rightarrow> string" where
  "trim s = rev (dropWhile is_white_space (rev (dropWhile is_white_space s)))"

text \<open>\<^verbatim>\<open>content.trim()\<close> on an optional string throws when the string is missing.\<close>

definition trim_opt :: "string option \<Rightarrow> error + string" where
  "trim_opt content =
     (case content of
        None \<Rightarrow> Inl (JavascriptError ''TypeError: Cannot read properties of undefined'')
      | Some s \<Rightarrow> Inr (trim s))"

text \<open>Decimal rendering of a number in string concatenation.\<close>

definition digit_char :: "nat \<Rightarrow> char" where
  "digit_char d =
     (if d = 0 then CHR ''0'' else if d = 1 then CHR ''1'' else if d = 2 then CHR ''2''
      else if d = 3 then CHR ''3'' else if d = 4 then CHR ''4'' else if d = 5 then CHR ''5''
      else if d = 6 then CHR ''6'' else if d = 7 then CHR ''7'' else if d = 8 then CHR ''8''
      else CHR ''9'')"

function show_nat :: "nat \<Rightarrow> string" where
  "show_nat n = (if n < 10 then [digit_char n] else show_nat (n div 10) @ [digit_char (n mod 10)])"
  by pat_completeness auto
termination
  by (relation "measure (\<lambda>n. n)") auto

declare show_nat.simps [simp del]

text \<open>An optional number argument in string concatenation.\<close>

definition show_opt :: "nat option \<Rightarrow> string" where
  "show_opt t = (case t of None \<Rightarrow> ''undefined'' | Some n \<Rightarrow> show_nat n)"

text \<open>\<^verbatim>\<open>t || d\<close> for an optional number \<open>t\<close>: zero and \<^verbatim>\<open>undefined\<close> are falsy.\<close>

definition or_default :: "nat option \<Rightarrow> nat \<Rightarrow> nat" where
  "or_default t d = (case t of None \<Rightarrow> d | Some n \<Rightarrow> if n \<noteq> 0 then n else d)"

section \<open>The document and the WebDriver primitives\<close>

record window =
  textContentInDocument :: bool
    \<comment> \<open>\<^verbatim>\<open>'textContent' in document\<close>\<close>
  querySelectorAll :: "string \<Rightarrow> node list option"
    \<comment> \<open>the matching nodes in document order; \<open>None\<close> when the selector is not valid\<close>
  clicked :: "node list"
    \<comment> \<open>the nodes whose \<^verbatim>\<open>click()\<close> has been invoked, oldest first\<close>

datatype locator = ByCss string

text \<open>\<^verbatim>\<open>driver.findElement(by.css(sel))\<close>: the first match, rejected when there is none.\<close>

definition driver_findElement :: "window \<Rightarrow> locator \<Rightarrow> jsval" where
  "driver_findElement w loc =
     (case loc of ByCss sel \<Rightarrow>
        (case querySelectorAll w sel of
           None \<Rightarrow> Promise (Inl InvalidSelectorError)
         | Some [] \<Rightarrow> Promise (Inl NoSuchElementError)
         | Some (el # _) \<Rightarrow> Promise (Inr (Element el))))"

text \<open>\<^verbatim>\<open>driver.findElements(by.css(sel))\<close>: all matches, possibly none.\<close>

definition driver_findElements :: "window \<Rightarrow> locator \<Rightarrow> jsval" where
  "driver_findElements w loc =
     (case loc of ByCss sel \<Rightarrow>
        (case querySelectorAll w sel of
           None \<Rightarrow> Promise (Inl InvalidSelectorError)
         | Some els \<Rightarrow> Promise (Inr (Array (map Element els)))))"

text \<open>\<^verbatim>\<open>el.getAttribute(name)\<close>: the value, or null when the attribute is absent.\<close>

definition getAttribute :: "node \<Rightarrow> string \<Rightarrow> jsval" where
  "getAttribute el name =
     (case map_of (attributes el) name of None \<Rightarrow> Promise (Inr Null) | Some v \<Rightarrow> Promise (Inr (Str v)))"

text \<open>
  An injected script is a function of the window that throws or returns a value and the
  window it leaves. \<^verbatim>\<open>driver.executeScript\<close> runs it and settles with what it returns.
\<close>

type_synonym script = "window \<Rightarrow> error + (jsval \<times> window)"

definition driver_executeScript :: "window \<Rightarrow> script \<Rightarrow> jsval \<times> window" where
  "driver_executeScript w f =
     (case f w of Inl e \<Rightarrow> (Promise (Inl e), w) | Inr (v, w') \<Rightarrow> (Promise (Inr v), w'))"

text \<open>
  \<^verbatim>\<open>driver.findElements(by.js(f, args))\<close>: runs the script and keeps the elements of
  what it returns: a single element, the elements of an array, nothing otherwise.
\<close>

fun is_element :: "jsval \<Rightarrow> bool" where
  "is_element (Element n) = True"
| "is_element v = False"

fun elements_of :: "jsval \<Rightarrow> jsval list" where
  "elements_of (Element n) = [Element n]"
| "elements_of (Array xs) = filter is_element xs"
| "elements_of v = []"

definition driver_findElements_js :: "window \<Rightarrow> script \<Rightarrow> jsval \<times> window" where
  "driver_findElements_js w f =
     (case f w of
        Inl e \<Rightarrow> (Promise (Inl e), w)
      | Inr (v, w') \<Rightarrow> (Promise (Inr (Array (elements_of v))), w'))"

text \<open>
  \<^verbatim>\<open>driver.wait(fn, timeout, message)\<close>. The polls are given as the list of observations
  the client makes: the window a poll sees and the milliseconds elapsed when its result is
  examined. A poll whose condition rejects rejects the wait; a truthy value resolves it;
  otherwise a non-zero timeout that has elapsed rejects it with a timeout error, and the
  next poll follows. The wait is still pending (\<open>None\<close>) when the observations run out.
\<close>

fun pollCondition ::
  "(window \<Rightarrow> jsval) \<Rightarrow> nat \<Rightarrow> string \<Rightarrow> (nat \<times> window) list \<Rightarrow> (error + jsval) option" where
  "pollCondition fn timeout message [] = None"
| "pollCondition fn timeout message ((elapsed, w) # rest) =
     (case await (fn w) of
        Inl e \<Rightarrow> Some (Inl e)
      | Inr v \<Rightarrow>
          if truthy v then Some (Inr v)
          else if timeout \<noteq> 0 \<and> timeout \<le> elapsed then Some (Inl (TimeoutError message elapsed))
          else pollCondition fn timeout message rest)"

definition driver_wait ::
  "(window \<Rightarrow> jsval) \<Rightarrow> nat \<Rightarrow> string \<Rightarrow> (nat \<times> window) list \<Rightarrow> jsval option" where
  "driver_wait fn timeout message polls = map_option Promise (pollCondition fn timeout message polls)"

text \<open>
  \<^verbatim>\<open>until.elementLocated(locator)\<close>: a condition with a description; it looks the
  elements up and yields the first, \<^verbatim>\<open>undefined\<close> when there is none.
\<close>

definition until_elementLocated :: "locator \<Rightarrow> (window \<Rightarrow> jsval) \<times> string" where
  "until_elementLocated loc =
     (\<lambda>w. async (case await (driver_findElements w loc) of
                   Inl e \<Rightarrow> Inl e
                 | Inr elements \<Rightarrow> js_index elements 0),
      case loc of ByCss sel \<Rightarrow> ''Waiting for element to be located By(css selector, '' @ sel @ '')'')"

section \<open>The scripts injected into the document\<close>

text \<open>The property a script reads the text of a node from.\<close>

definition txtProp :: "window \<Rightarrow> node \<Rightarrow> string" where
  "txtProp w = (if textContentInDocument w then textContent else innerText)"

text \<open>\<^verbatim>\<open>document.querySelectorAll(query)\<close> inside a script: not a valid selector throws.\<close>

definition document_querySelectorAll :: "window \<Rightarrow> string \<Rightarrow> error + node list" where
  "document_querySelectorAll w query =
     (case querySelectorAll w query of
        None \<Rightarrow> Inl (JavascriptError ''SyntaxError: not a valid selector'')
      | Some els \<Rightarrow> Inr els)"

text \<open>\<^verbatim>\<open>document.querySelector(qs)\<close>: the first match or null.\<close>

definition document_querySelector :: "window \<Rightarrow> string \<Rightarrow> error + node option" where
  "document_querySelector w qs =
     (case document_querySelectorAll w qs of
        Inl e \<Rightarrow> Inl e
      | Inr [] \<Rightarrow> Inr None
      | Inr (el # _) \<Rightarrow> Inr (Some el))"

text \<open>\<^verbatim>\<open>elements[i].click()\<close>: the click is recorded in the window.\<close>

definition click :: "node \<Rightarrow> window \<Rightarrow> window" where
  "click el w = w\<lparr>clicked := clicked w @ [el]\<rparr>"

text \<open>
  The loop of \<^verbatim>\<open>findElementsContainingText\<close>, from index \<open>i\<close> with the results pushed
  so far. The bound \<^verbatim>\<open>l\<close> is the length of the node list, which does not change.
\<close>

function findElementsContainingText_loop ::
  "(node \<Rightarrow> string) \<Rightarrow> node list \<Rightarrow> string option \<Rightarrow> nat \<Rightarrow> node list \<Rightarrow> error + node list" where
  "findElementsContainingText_loop prop elements content i results =
     (if i < length elements then
        (case trim_opt content of
           Inl e \<Rightarrow> Inl e
         | Inr c \<Rightarrow>
             findElementsContainingText_loop prop elements content (i + 1)
               (if trim (prop (elements ! i)) = c then results @ [elements ! i] else results))
      else Inr results)"
  by pat_completeness auto
termination
  by (relation "measure (\<lambda>(prop, elements, content, i, results). length elements - i)") auto

declare findElementsContainingText_loop.simps [simp del]

definition findElementsContainingText :: "string \<Rightarrow> string option \<Rightarrow> script" where
  "findElementsContainingText query content w =
     (case document_querySelectorAll w query of
        Inl e \<Rightarrow> Inl e
      | Inr elements \<Rightarrow>
          (case findElementsContainingText_loop (txtProp w) elements content 0 [] of
             Inl e \<Rightarrow> Inl e
           | Inr results \<Rightarrow> Inr (Array (map Element results), w)))"

text \<open>The loop of \<^verbatim>\<open>clickElementInDom\<close>, from index \<open>i\<close>, threading the window.\<close>

function clickElementInDom_loop ::
  "(node \<Rightarrow> string) \<Rightarrow> node list \<Rightarrow> string option \<Rightarrow> nat \<Rightarrow> window \<Rightarrow> window" where
  "clickElementInDom_loop prop elements content i w =
     (if i < length elements then
        clickElementInDom_loop prop elements content (i + 1)
          (if truthy_str content then
             (if strict_eq_str (prop (elements ! i)) content then click (elements ! i) w else w)
           else click (elements ! i) w)
      else w)"
  by pat_completeness auto
termination
  by (relation "measure (\<lambda>(prop, elements, content, i, w). length elements - i)") auto

declare clickElementInDom_loop.simps [simp del]

definition clickElementInDom :: "string \<Rightarrow> string option \<Rightarrow> script" where
  "clickElementInDom query content w =
     (case document_querySelectorAll w query of
        Inl e \<Rightarrow> Inl e
      | Inr elements \<Rightarrow>
          Inr (Undefined, clickElementInDom_loop (txtProp w) elements content 0 w))"

text \<open>
  \<^verbatim>\<open>window.getComputedStyle(el, pseudoElt)\<close> for the two pseudo-elements the helpers
  ask for, and \<^verbatim>\<open>styles.getPropertyValue(name)\<close>, which is empty for a property not set.
\<close>

definition getComputedStyle :: "node \<Rightarrow> string \<Rightarrow> style option" where
  "getComputedStyle el pseudoElt =
     (if pseudoElt = '':before'' then beforeStyle el
      else if pseudoElt = '':after'' then afterStyle el
      else None)"

definition getPropertyValue :: "style \<Rightarrow> string \<Rightarrow> string" where
  "getPropertyValue styles name = (case map_of styles name of None \<Rightarrow> [] | Some v \<Rightarrow> v)"

definition getBeforeContentValue :: "string \<Rightarrow> script" where
  "getBeforeContentValue qs w =
     (case document_querySelector w qs of
        Inl e \<Rightarrow> Inl e
      | Inr el \<Rightarrow>
          (let styles = (case el of Some n \<Rightarrow> getComputedStyle n '':before'' | None \<Rightarrow> None)
           in Inr (case styles of Some st \<Rightarrow> Str (getPropertyValue st ''content'') | None \<Rightarrow> Str [],
                   w)))"

definition getAfterContentValue :: "string \<Rightarrow> script" where
  "getAfterContentValue qs w =
     (case document_querySelector w qs of
        Inl e \<Rightarrow> Inl e
      | Inr el \<Rightarrow>
          (let styles = (case el of Some n \<Rightarrow> getComputedStyle n '':after'' | None \<Rightarrow> None)
           in Inr (case styles of Some st \<Rightarrow> Str (getPropertyValue st ''content'') | None \<Rightarrow> Str [],
                   w)))"

section \<open>The helpers\<close>

text \<open>
  Every helper returns a promise. A helper that only reads the document is a function of
  the window; \<^verbatim>\<open>clickHiddenElement\<close> also returns the window it leaves. The waiters take
  the process-wide \<^verbatim>\<open>DEFAULT_TIMEOUT\<close> as their first argument and the observations of
  their polls as the last.
\<close>

definition getAttributeValue :: "window \<Rightarrow> string \<Rightarrow> string \<Rightarrow> jsval" where
  "getAttributeValue w htmlCssSelector attributeName =
     async (case await (driver_findElement w (ByCss htmlCssSelector)) of
              Inl e \<Rightarrow> Inl e
            | Inr el \<Rightarrow>
                (case el of
                   Element n \<Rightarrow> Inr (getAttribute n attributeName)
                 | _ \<Rightarrow> Inl (TypeError ''el.getAttribute is not a function'')))"

definition getElementsContainingText :: "window \<Rightarrow> string \<Rightarrow> string option \<Rightarrow> jsval" where
  "getElementsContainingText w cssSelector textToMatch =
     fst (driver_findElements_js w (findElementsContainingText cssSelector textToMatch))"

definition getFirstElementContainingText :: "window \<Rightarrow> string \<Rightarrow> string option \<Rightarrow> jsval" where
  "getFirstElementContainingText w cssSelector textToMatch =
     async (let elements = getElementsContainingText w cssSelector textToMatch
            in js_index elements 0)"

definition clickHiddenElement :: "window \<Rightarrow> string \<Rightarrow> string option \<Rightarrow> jsval \<times> window" where
  "clickHiddenElement w cssSelector textToMatch =
     driver_findElements_js w (clickElementInDom cssSelector textToMatch)"

definition waitUntilAttributeEquals ::
  "nat \<Rightarrow> string \<Rightarrow> string \<Rightarrow> string \<Rightarrow> nat option \<Rightarrow> (nat \<times> window) list \<Rightarrow> jsval option" where
  "waitUntilAttributeEquals DEFAULT_TIMEOUT elementSelector attributeName attributeValue
       waitInMilliseconds polls =
     (let timeout = or_default waitInMilliseconds DEFAULT_TIMEOUT;
          timeoutMessage = attributeName @ '' does not equal '' @ attributeValue @ '' after ''
                             @ show_opt waitInMilliseconds @ '' milliseconds''
      in driver_wait
           (\<lambda>w. async (case await (getAttributeValue w elementSelector attributeName) of
                         Inl e \<Rightarrow> Inl e
                       | Inr v \<Rightarrow> Inr (Bool (v = Str attributeValue))))
           timeout timeoutMessage polls)"

definition waitUntilAttributeExists ::
  "nat \<Rightarrow> string \<Rightarrow> string \<Rightarrow> nat option \<Rightarrow> (nat \<times> window) list \<Rightarrow> jsval option" where
  "waitUntilAttributeExists DEFAULT_TIMEOUT elementSelector attributeName waitInMilliseconds polls =
     (let timeout = or_default waitInMilliseconds DEFAULT_TIMEOUT;
          timeoutMessage = attributeName @ '' does not exists after ''
                             @ show_opt waitInMilliseconds @ '' milliseconds''
      in driver_wait
           (\<lambda>w. async (case await (getAttributeValue w elementSelector attributeName) of
                         Inl e \<Rightarrow> Inl e
                       | Inr v \<Rightarrow> Inr (Bool (v \<noteq> Null))))
           timeout timeoutMessage polls)"

definition waitUntilAttributeDoesNotExists ::
  "nat \<Rightarrow> string \<Rightarrow> string \<Rightarrow> nat option \<Rightarrow> (nat \<times> window) list \<Rightarrow> jsval option" where
  "waitUntilAttributeDoesNotExists DEFAULT_TIMEOUT elementSelector attributeName waitInMilliseconds
       polls =
     (let timeout = or_default waitInMilliseconds DEFAULT_TIMEOUT;
          timeoutMessage = attributeName @ '' still exists after ''
                             @ show_opt waitInMilliseconds @ '' milliseconds''
      in driver_wait
           (\<lambda>w. async (case await (getAttributeValue w elementSelector attributeName) of
                         Inl e \<Rightarrow> Inl e
                       | Inr v \<Rightarrow> Inr (Bool (v = Null))))
           timeout timeoutMessage polls)"

definition getPseudoElementBeforeValue :: "window \<Rightarrow> string \<Rightarrow> jsval" where
  "getPseudoElementBeforeValue w cssSelector =
     fst (driver_executeScript w (getBeforeContentValue cssSelector))"

definition getPseudoElementAfterValue :: "window \<Rightarrow> string \<Rightarrow> jsval" where
  "getPseudoElementAfterValue w cssSelector =
     fst (driver_executeScript w (getAfterContentValue cssSelector))"

section \<open>The session: navigation, cookies and storages\<close>

datatype command = Get string | DeleteAllCookies | ExecuteScript string

record session =
  location :: string
  cookies :: "(string \<times> string) list"
  deleteAllCookiesError :: "error option"
    \<comment> \<open>the error the browser answers a cookie deletion with; \<open>None\<close> when it deletes
        the cookies\<close>
  localStorage :: "(string \<times> string) list option"
    \<comment> \<open>\<open>None\<close> on a document without storage access, such as the page of a session
        that has not navigated yet: reading \<^verbatim>\<open>window.localStorage\<close> throws there\<close>
  sessionStorage :: "(string \<times> string) list option"
  history :: "command list"
    \<comment> \<open>the commands sent to the browser, oldest first\<close>

text \<open>\<^verbatim>\<open>driver.get(url)\<close> and \<^verbatim>\<open>driver.manage().deleteAllCookies()\<close>.\<close>

definition driver_get :: "string \<Rightarrow> session \<Rightarrow> jsval \<times> session" where
  "driver_get url s = (Promise (Inr Undefined), s\<lparr>location := url, history := history s @ [Get url]\<rparr>)"

definition driver_deleteAllCookies :: "session \<Rightarrow> jsval \<times> session" where
  "driver_deleteAllCookies s =
     (case deleteAllCookiesError s of
        Some e \<Rightarrow> (Promise (Inl e), s\<lparr>history := history s @ [DeleteAllCookies]\<rparr>)
      | None \<Rightarrow>
          (Promise (Inr Undefined), s\<lparr>cookies := [], history := history s @ [DeleteAllCookies]\<rparr>))"

text \<open>
  \<^verbatim>\<open>driver.executeScript(source)\<close> with the script given as source text. The text is
  run statement by statement; the statements understood are the two storage clearings,
  which throw on a document without storage access, and any other statement is an
  exception of the script. An exception ends the script; what the statements before it
  have done stays done.
\<close>

fun split_on :: "char \<Rightarrow> string \<Rightarrow> string list" where
  "split_on c [] = [[]]"
| "split_on c (x # xs) =
     (if x = c then [] # split_on c xs
      else (case split_on c xs of [] \<Rightarrow> [[x]] | y # ys \<Rightarrow> (x # y) # ys))"

definition run_statement :: "string \<Rightarrow> session \<Rightarrow> error + session" where
  "run_statement st s =
     (if st = [] then Inr s
      else if st = ''window.localStorage.clear()'' then
        (case localStorage s of
           None \<Rightarrow> Inl (JavascriptError ''SecurityError: window.localStorage'')
         | Some _ \<Rightarrow> Inr (s\<lparr>localStorage := Some []\<rparr>))
      else if st = ''window.sessionStorage.clear()'' then
        (case sessionStorage s of
           None \<Rightarrow> Inl (JavascriptError ''SecurityError: window.sessionStorage'')
         | Some _ \<Rightarrow> Inr (s\<lparr>sessionStorage := Some []\<rparr>))
      else Inl (JavascriptError st))"

fun run_statements :: "string list \<Rightarrow> session \<Rightarrow> error option \<times> session" where
  "run_statements [] s = (None, s)"
| "run_statements (st # sts) s =
     (case run_statement (trim st) s of
        Inl e \<Rightarrow> (Some e, s)
      | Inr s' \<Rightarrow> run_statements sts s')"

definition driver_executeScript_source :: "string \<Rightarrow> session \<Rightarrow> jsval \<times> session" where
  "driver_executeScript_source source s =
     (case run_statements (split_on CHR '';'' source) s of
        (Some e, s') \<Rightarrow> (Promise (Inl e), s'\<lparr>history := history s' @ [ExecuteScript source]\<rparr>)
      | (None, s') \<Rightarrow> (Promise (Inr Null), s'\<lparr>history := history s' @ [ExecuteScript source]\<rparr>))"

text \<open>
  The session helpers. An \<^verbatim>\<open>await\<close> runs the awaited command to its end before the
  next statement; a rejection leaves the function at that point.
\<close>

definition clearCookies :: "session \<Rightarrow> jsval \<times> session" where
  "clearCookies s =
     (let (p, s1) = driver_deleteAllCookies s
      in (async (case await p of Inl e \<Rightarrow> Inl e | Inr _ \<Rightarrow> Inr Undefined), s1))"

definition clearStorages :: "session \<Rightarrow> jsval \<times> session" where
  "clearStorages s =
     (let (p, s1) = driver_executeScript_source
                      ''window.localStorage.clear(); window.sessionStorage.clear();'' s
      in (async (case await p of Inl e \<Rightarrow> Inl e | Inr _ \<Rightarrow> Inr Undefined), s1))"

definition clearCookiesAndStorages :: "session \<Rightarrow> jsval \<times> session" where
  "clearCookiesAndStorages s =
     (let (p1, s1) = clearCookies s
      in case await p1 of
           Inl e \<Rightarrow> (async (Inl e), s1)
         | Inr _ \<Rightarrow>
             (let (p2, s2) = clearStorages s1
              in (async (case await p2 of Inl e \<Rightarrow> Inl e | Inr _ \<Rightarrow> Inr Undefined), s2)))"

text \<open>
  \<^verbatim>\<open>loadPage(url, waitInSeconds)\<close>. The observations are those of the polls for the body
  element after the navigation; the promise is still pending (\<open>None\<close>) when they run out.
\<close>

definition loadPage ::
  "nat \<Rightarrow> string \<Rightarrow> nat option \<Rightarrow> session \<Rightarrow> (nat \<times> window) list \<Rightarrow> jsval option \<times> session" where
  "loadPage DEFAULT_TIMEOUT url waitInSeconds s polls =
     (let timeout = (case waitInSeconds of
                       None \<Rightarrow> DEFAULT_TIMEOUT
                     | Some n \<Rightarrow> if n \<noteq> 0 then n * 1000 else DEFAULT_TIMEOUT);
          (p, s1) = driver_get url s
      in case await p of
           Inl e \<Rightarrow> (Some (async (Inl e)), s1)
         | Inr _ \<Rightarrow>
             (let (fn, description) = until_elementLocated (ByCss ''body'')
              in (case driver_wait fn timeout description polls of
                    None \<Rightarrow> None
                  | Some p' \<Rightarrow>
                      Some (async (case await p' of Inl e \<Rightarrow> Inl e | Inr _ \<Rightarrow> Inr Undefined)),
                  s1)))"

section \<open>Example pages\<close>

definition node_html_busy :: node where
  "node_html_busy =
     \<lparr>ident = 0, textContent = ''Mammoth Workwear'', innerText = ''Mammoth Workwear'',
      attributes = [(''lang'', ''en''), (''data-busy'', ''true'')], displayed = True,
      beforeStyle = Some [(''content'', ''none'')], afterStyle = Some [(''content'', ''none'')]\<rparr>"

definition node_html_idle :: node where
  "node_html_idle = node_html_busy\<lparr>attributes := [(''lang'', ''en'')]\<rparr>"

definition node_body :: node where
  "node_body = node_html_busy\<lparr>ident := 1, attributes := []\<rparr>"

definition node_boots :: node where
  "node_boots =
     \<lparr>ident = 2, textContent = ''Safety Boots'', innerText = ''Safety Boots'',
      attributes = [(''href'', ''/safety-boots'')], displayed = False,
      beforeStyle = Some [(''content'', ''none'')], afterStyle = Some [(''content'', ''none'')]\<rparr>"

definition node_boots_padded :: node where
  "node_boots_padded =
     node_boots\<lparr>ident := 3, textContent := '' Safety Boots '', innerText := ''Safety Boots'',
                 displayed := True\<rparr>"

definition node_gloves :: node where
  "node_gloves = node_boots\<lparr>ident := 4, textContent := ''Gloves'', innerText := ''Gloves''\<rparr>"

text \<open>
  A page whose \<^verbatim>\<open>html\<close> element carries the attribute \<^verbatim>\<open>data-busy\<close>, with a menu of
  three links; the same page once the attribute is gone; and a document with no element.
  \<^verbatim>\<open>a[\<close> is not a valid selector.
\<close>

definition shop_busy :: window where
  "shop_busy =
     \<lparr>textContentInDocument = True,
      querySelectorAll = (\<lambda>q.
        if q = ''a['' then None
        else if q = ''html'' then Some [node_html_busy]
        else if q = ''body'' then Some [node_body]
        else if q = ''nav a'' then Some [node_boots, node_boots_padded, node_gloves]
        else Some []),
      clicked = []\<rparr>"

definition shop_idle :: window where
  "shop_idle =
     \<lparr>textContentInDocument = True,
      querySelectorAll = (\<lambda>q.
        if q = ''a['' then None
        else if q = ''html'' then Some [node_html_idle]
        else if q = ''body'' then Some [node_body]
        else if q = ''nav a'' then Some [node_boots, node_boots_padded, node_gloves]
        else Some []),
      clicked = []\<rparr>"

definition blank_page :: window where
  "blank_page =
     \<lparr>textContentInDocument = True,
      querySelectorAll = (\<lambda>q. if q = ''a['' then None else Some []),
      clicked = []\<rparr>"

text \<open>
  A session on a page with cookies and storages; the session of a browser that has not
  navigated yet, whose document has no storage access; a session whose browser refuses
  the cookie deletion; and one whose document has a local storage only.
\<close>

definition fresh_session :: session where
  "fresh_session =
     \<lparr>location = ''about:blank'', cookies = [(''sid'', ''42'')], deleteAllCookiesError = None,
      localStorage = Some [(''basket'', ''boots'')], sessionStorage = Some [(''tab'', ''1'')],
      history = []\<rparr>"

definition never_navigated :: session where
  "never_navigated =
     \<lparr>location = ''data:,'', cookies = [], deleteAllCookiesError = None,
      localStorage = None, sessionStorage = None, history = []\<rparr>"

definition refusing_session :: session where
  "refusing_session =
     fresh_session\<lparr>deleteAllCookiesError := Some (WebDriverError ''unable to delete cookies'')\<rparr>"

definition local_only_session :: session where
  "local_only_session = fresh_session\<lparr>sessionStorage := None\<rparr>"

section \<open>Properties of the loops and the lookups\<close>

lemma findElementsContainingText_loop_filter:
  "content = Some t \<Longrightarrow>
   findElementsContainingText_loop tp es content i acc =
     Inr (acc @ filter (\<lambda>n. trim (tp n) = trim t) (drop i es))"
proof (induction tp es content i acc rule: findElementsContainingText_loop.induct)
  case (1 tp elements content i results)
  show ?case
  proof (cases "i < length elements")
    case True
    then have d: "drop i elements = elements ! i # drop (Suc i) elements"
      by (simp add: Cons_nth_drop_Suc)
    have c: "trim_opt content = Inr (trim t)"
      using "1.prems" by (simp add: trim_opt_def)
    from True "1.IH"[OF True c "1.prems"] c show ?thesis
      by (subst findElementsContainingText_loop.simps) (simp add: d)
  next
    case False
    then show ?thesis
      by (subst findElementsContainingText_loop.simps) simp
  qed
qed

lemma clickElementInDom_loop_filter:
  "clickElementInDom_loop tp es content i w =
     w\<lparr>clicked := clicked w @
         filter (\<lambda>n. truthy_str content \<longrightarrow> strict_eq_str (tp n) content) (drop i es)\<rparr>"
proof (induction tp es content i w rule: clickElementInDom_loop.induct)
  case (1 tp elements content i w)
  show ?case
  proof (cases "i < length elements")
    case True
    then have d: "drop i elements = elements ! i # drop (Suc i) elements"
      by (simp add: Cons_nth_drop_Suc)
    from True "1.IH"[OF True] show ?thesis
      by (subst clickElementInDom_loop.simps) (simp add: d click_def)
  next
    case False
    then show ?thesis
      by (subst clickElementInDom_loop.simps) simp
  qed
qed

lemma elements_of_map_Element: "elements_of (Array (map Element ns)) = map Element ns"
  by (induction ns) simp_all


lemma getAttributeValue_first_match:
  "querySelectorAll w sel = Some (el # els) \<Longrightarrow>
   getAttributeValue w sel attr =
     Promise (Inr (case map_of (attributes el) attr of None \<Rightarrow> Null | Some v \<Rightarrow> Str v))"
  by (simp add: getAttributeValue_def driver_findElement_def async_def getAttribute_def
      split: option.splits)

section \<open>The attribute lookup when nothing matches the selector\<close>




section \<open>Loading a page\<close>

lemma pollCondition_skip:
  "\<forall>(e, w) \<in> set pre. (\<exists>v. await (fn w) = Inr v \<and> \<not> truthy v) \<and> (timeout = 0 \<or> e < timeout) \<Longrightarrow>
   pollCondition fn timeout message (pre @ rest) = pollCondition fn timeout message rest"
proof (induction pre)
  case Nil
  then show ?case by simp
next
  case (Cons p pre)
  obtain e w where p: "p = (e, w)" by (cases p)
  from Cons.prems p obtain v where v: "await (fn w) = Inr v" "\<not> truthy v"
    and e: "timeout = 0 \<or> e < timeout"
    by auto
  from Cons.prems have "\<forall>(e, w) \<in> set pre. (\<exists>v. await (fn w) = Inr v \<and> \<not> truthy v) \<and> (timeout = 0 \<or> e < timeout)"
    by simp
  then have "pollCondition fn timeout message (pre @ rest) = pollCondition fn timeout message rest"
    by (rule Cons.IH)
  with p v e show ?case by auto
qed

lemma elementLocated_none:
  "querySelectorAll w sel = Some [] \<Longrightarrow>
   await (fst (until_elementLocated (ByCss sel)) w) = Inr Undefined"
  by (simp add: until_elementLocated_def driver_findElements_def async_def)

lemma elementLocated_first:
  "querySelectorAll w sel = Some (b # bs) \<Longrightarrow>
   await (fst (until_elementLocated (ByCss sel)) w) = Inr (Element b)"
  by (simp add: until_elementLocated_def driver_findElements_def async_def)

lemma elementLocated_description:
  "snd (until_elementLocated (ByCss ''body'')) =
     ''Waiting for element to be located By(css selector, body)''"
  by (simp add: until_elementLocated_def)

lemma loadPage_unfold:
  "loadPage D url t s polls =
     (map_option (\<lambda>p. async (case await p of Inl e \<Rightarrow> Inl e | Inr _ \<Rightarrow> Inr Undefined))
        (driver_wait (fst (until_elementLocated (ByCss ''body'')))
           (case t of None \<Rightarrow> D | Some n \<Rightarrow> if n = 0 then D else n * 1000)
           (snd (until_elementLocated (ByCss ''body''))) polls),
      s\<lparr>location := url, history := history s @ [Get url]\<rparr>)"
  by (simp add: loadPage_def driver_get_def Let_def case_prod_beta split: option.splits)

text \<open>
  Claim C2, as amended. \<^verbatim>\<open>loadPage(url, t)\<close> navigates to the url and then waits for
  the \<^verbatim>\<open>body\<close> element with a bound of \<open>t\<close> seconds, that is \<open>t * 1000\<close>
  milliseconds, for a non-zero \<open>t\<close>, and of the process-wide default when \<open>t\<close> is
  omitted or zero: polls that see no body before the bound are passed over, a poll that
  sees the body resolves the promise, and the first poll at or after the bound that sees
  no body rejects it with a timeout error.
\<close>

theorem loadPage_bound:
  assumes bound: "bound = (case t of None \<Rightarrow> D | Some n \<Rightarrow> if n = 0 then D else n * 1000)"
    and early: "\<forall>(e, w) \<in> set pre. querySelectorAll w ''body'' = Some [] \<and> e < bound"
  shows "snd (loadPage D url t s polls) = s\<lparr>location := url, history := history s @ [Get url]\<rparr> \<and>
    (querySelectorAll w ''body'' = Some (b # bs) \<longrightarrow>
       fst (loadPage D url t s (pre @ (e, w) # rest)) = Some (Promise (Inr Undefined))) \<and>
    (querySelectorAll w' ''body'' = Some [] \<and> 0 < bound \<and> bound \<le> e' \<longrightarrow>
       fst (loadPage D url t s (pre @ (e', w') # rest')) =
         Some (Promise (Inl (TimeoutError
           ''Waiting for element to be located By(css selector, body)'' e'))))"
proof -
  let ?fn = "fst (until_elementLocated (ByCss ''body''))"
  let ?d = "snd (until_elementLocated (ByCss ''body''))"
  have skip: "pollCondition ?fn bound ?d (pre @ rest0) = pollCondition ?fn bound ?d rest0" for rest0
  proof (rule pollCondition_skip)
    show "\<forall>(e, w) \<in> set pre. (\<exists>v. await (?fn w) = Inr v \<and> \<not> truthy v) \<and> (bound = 0 \<or> e < bound)"
      using early by (auto simp: elementLocated_none)
  qed
  have a: "snd (loadPage D url t s polls) = s\<lparr>location := url, history := history s @ [Get url]\<rparr>"
    by (simp add: loadPage_unfold)
  have b: "fst (loadPage D url t s (pre @ (e, w) # rest)) = Some (Promise (Inr Undefined))"
    if "querySelectorAll w ''body'' = Some (b # bs)"
    using elementLocated_first [OF that] skip [of "(e, w) # rest"]
    by (simp add: loadPage_unfold driver_wait_def bound [symmetric] async_def)
  have c: "fst (loadPage D url t s (pre @ (e', w') # rest')) =
         Some (Promise (Inl (TimeoutError
           ''Waiting for element to be located By(css selector, body)'' e')))"
    if "querySelectorAll w' ''body'' = Some []" "0 < bound" "bound \<le> e'"
    using elementLocated_none [OF that(1)] that(2,3) skip [of "(e', w') # rest'"]
    by (simp add: loadPage_unfold driver_wait_def bound [symmetric] async_def
        elementLocated_description)
  from a b c show ?thesis by blast
qed

theorem loadPage_bound_witness:
  "snd (loadPage 10000 ''http://mammothworkwear.com'' (Some 5) fresh_session []) =
     fresh_session\<lparr>location := ''http://mammothworkwear.com'',
                   history := [Get ''http://mammothworkwear.com'']\<rparr> \<and>
   fst (loadPage 10000 ''http://mammothworkwear.com'' (Some 5) fresh_session
          [(0, blank_page), (4999, blank_page), (5200, shop_idle)]) =
     Some (Promise (Inr Undefined)) \<and>
   fst (loadPage 10000 ''http://mammothworkwear.com'' (Some 5) fresh_session
          [(0, blank_page), (4999, blank_page), (5000, blank_page)]) =
     Some (Promise (Inl (TimeoutError
       ''Waiting for element to be located By(css selector, body)'' 5000)))"
proof -
  have bound: "(5000::nat) = (case Some 5 of None \<Rightarrow> 10000 | Some n \<Rightarrow> if n = 0 then 10000 else n * 1000)"
    by simp
  have early: "\<forall>(e, w) \<in> set [(0, blank_page), (4999::nat, blank_page)].
      querySelectorAll w ''body'' = Some [] \<and> e < 5000"
    by (simp add: blank_page_def)
  have body: "querySelectorAll shop_idle ''body'' = Some (node_body # [])"
    by (simp add: shop_idle_def)
  have nobody: "querySelectorAll blank_page ''body'' = Some []"
    by (simp add: blank_page_def)
  show ?thesis
    using body nobody
      loadPage_bound [OF bound early, of "''http://mammothworkwear.com''" fresh_session "[]"
        shop_idle node_body "[]" 5200 "[]" blank_page 5000 "[]"]
    by (simp add: fresh_session_def)
qed

text \<open>
  Claim C2 as stated fails: with \<open>t = 5\<close> a body that appears after 400 milliseconds
  still resolves the promise, where a wait bounded by 5 milliseconds has expired at the
  poll 200 milliseconds in.
\<close>

theorem loadPage_milliseconds_counterexample:
  "fst (loadPage 10000 ''http://mammothworkwear.com'' (Some 5) fresh_session
          [(0, blank_page), (200, blank_page), (400, shop_idle)]) =
     Some (Promise (Inr Undefined)) \<and>
   driver_wait (fst (until_elementLocated (ByCss ''body''))) 5
       (snd (until_elementLocated (ByCss ''body'')))
       [(0, blank_page), (200, blank_page), (400, shop_idle)] =
     Some (Promise (Inl (TimeoutError
       ''Waiting for element to be located By(css selector, body)'' 200)))"
proof -
  have body: "querySelectorAll shop_idle ''body'' = Some (node_body # [])"
    by (simp add: shop_idle_def)
  have nobody: "querySelectorAll blank_page ''body'' = Some []"
    by (simp add: blank_page_def)
  show ?thesis
    by (simp add: loadPage_unfold driver_wait_def async_def elementLocated_description
        elementLocated_none [OF nobody] elementLocated_first [OF body])
qed

section \<open>The message of an expired attribute wait\<close>

text \<open>
  An attribute that is present at every poll makes \<^verbatim>\<open>waitUntilAttributeDoesNotExists\<close>
  expire at the first poll at or after the bound \<^verbatim>\<open>waitInMilliseconds || DEFAULT_TIMEOUT\<close>;
  the message of the timeout error renders the argument \<^verbatim>\<open>waitInMilliseconds\<close> itself.
\<close>

lemma pollCondition_expires:
  assumes "\<forall>(e, w) \<in> set pre. (\<exists>v. await (fn w) = Inr v \<and> \<not> truthy v) \<and> e < timeout"
    and "await (fn w) = Inr v" and "\<not> truthy v" and "0 < timeout" and "timeout \<le> e"
  shows "pollCondition fn timeout message (pre @ (e, w) # rest) =
           Some (Inl (TimeoutError message e))"
proof -
  from assms(1)
  have "\<forall>(e, w) \<in> set pre. (\<exists>v. await (fn w) = Inr v \<and> \<not> truthy v) \<and> (timeout = 0 \<or> e < timeout)"
    by auto
  then have "pollCondition fn timeout message (pre @ (e, w) # rest) =
      pollCondition fn timeout message ((e, w) # rest)"
    by (rule pollCondition_skip)
  with assms(2-5) show ?thesis by simp
qed

lemma waitUntilAttributeDoesNotExists_expires:
  assumes present: "\<forall>(e, w) \<in> set (pre @ [(e', w')]).
      \<exists>el els v. querySelectorAll w sel = Some (el # els) \<and> map_of (attributes el) attr = Some v"
    and early: "\<forall>(e, w) \<in> set pre. e < or_default t D"
    and late: "0 < or_default t D" "or_default t D \<le> e'"
  shows "waitUntilAttributeDoesNotExists D sel attr t (pre @ (e', w') # rest) =
           Some (Promise (Inl (TimeoutError
             (attr @ '' still exists after '' @ show_opt t @ '' milliseconds'') e')))"
proof -
  let ?fn = "\<lambda>w. async (case await (getAttributeValue w sel attr) of
                         Inl e \<Rightarrow> Inl e
                       | Inr v \<Rightarrow> Inr (Bool (v = Null)))"
  have false: "await (?fn w) = Inr (Bool False)"
    if "\<exists>el els v. querySelectorAll w sel = Some (el # els) \<and> map_of (attributes el) attr = Some v"
    for w
  proof -
    from that obtain el els v where q: "querySelectorAll w sel = Some (el # els)"
      and a: "map_of (attributes el) attr = Some v"
      by blast
    show ?thesis
      by (simp add: getAttributeValue_first_match [OF q] a async_def)
  qed
  have 1: "\<forall>(e, w) \<in> set pre. (\<exists>v. await (?fn w) = Inr v \<and> \<not> truthy v) \<and> e < or_default t D"
  proof (clarify, rule conjI)
    fix e w assume m: "(e, w) \<in> set pre"
    with present have "await (?fn w) = Inr (Bool False)"
      by (intro false) auto
    then show "\<exists>v. await (?fn w) = Inr v \<and> \<not> truthy v"
      by simp
    from m early show "e < or_default t D" by auto
  qed
  from present have 2: "await (?fn w') = Inr (Bool False)"
    by (intro false) auto
  have "pollCondition ?fn (or_default t D)
          (attr @ '' still exists after '' @ show_opt t @ '' milliseconds'')
          (pre @ (e', w') # rest) =
        Some (Inl (TimeoutError
          (attr @ '' still exists after '' @ show_opt t @ '' milliseconds'') e'))"
    using 1 2 _ late by (rule pollCondition_expires) simp
  then show ?thesis
    by (simp add: waitUntilAttributeDoesNotExists_def driver_wait_def)
qed

text \<open>
  Claim C3, at the input where the code departs from it. With \<^verbatim>\<open>waitInMilliseconds\<close>
  omitted and an attribute that stays, \<^verbatim>\<open>waitUntilAttributeDoesNotExists\<close> is
  bounded by the default of 10000 milliseconds (the poll at 9999 is passed over, the
  poll at 10003 rejects), and the message of the timeout error reads
  \<^verbatim>\<open>undefined\<close> where the bound belongs: it does not contain 10000.
\<close>

theorem waiter_message_omitted_timeout:
  "waitUntilAttributeDoesNotExists 10000 ''html'' ''data-busy'' None
       [(0, shop_busy), (9999, shop_busy), (10003, shop_busy)] =
     Some (Promise (Inl (TimeoutError
       ''data-busy still exists after undefined milliseconds'' 10003))) \<and>
   \<not> sublist (show_nat 10000) ''data-busy still exists after undefined milliseconds''"
proof -
  have b: "querySelectorAll shop_busy ''html'' = Some [node_html_busy]"
    by (simp add: shop_busy_def)
  have v: "getAttributeValue shop_busy ''html'' ''data-busy'' = Promise (Inr (Str ''true''))"
    by (simp add: getAttributeValue_first_match [OF b] node_html_busy_def)
  have w: "waitUntilAttributeDoesNotExists 10000 ''html'' ''data-busy'' None
       [(0, shop_busy), (9999, shop_busy), (10003, shop_busy)] =
     Some (Promise (Inl (TimeoutError
       ''data-busy still exists after undefined milliseconds'' 10003)))"
    by (simp add: waitUntilAttributeDoesNotExists_def driver_wait_def async_def v
        or_default_def show_opt_def)
  have s: "\<not> sublist (show_nat 10000) ''data-busy still exists after undefined milliseconds''"
    by (simp add: show_nat.simps digit_char_def sublist_Cons_right)
  from w s show ?thesis by simp
qed

section \<open>Elements by their text\<close>

lemma getElementsContainingText_is_promise:
  "\<exists>r. getElementsContainingText w cssSelector textToMatch = Promise r"
  by (cases "findElementsContainingText cssSelector textToMatch w")
     (auto simp: getElementsContainingText_def driver_findElements_js_def)

text \<open>
  Claim C4. For every selector and text, \<^verbatim>\<open>getFirstElementContainingText\<close> resolves to
  \<^verbatim>\<open>undefined\<close>: it reads index 0 of the promise \<^verbatim>\<open>getElementsContainingText\<close>
  returns, not of the array the promise resolves to.
\<close>

theorem getFirstElementContainingText_undefined:
  "getFirstElementContainingText w cssSelector textToMatch = Promise (Inr Undefined)"
proof -
  obtain r where "getElementsContainingText w cssSelector textToMatch = Promise r"
    using getElementsContainingText_is_promise by blast
  then show ?thesis
    by (simp add: getFirstElementContainingText_def async_def)
qed

text \<open>
  Claim C6. For a selector that matches the nodes \<open>els\<close>,
  \<^verbatim>\<open>getElementsContainingText\<close> resolves to exactly the nodes among them whose text,
  trimmed, equals the trimmed text to match, in document order.
\<close>

theorem getElementsContainingText_trimmed:
  "querySelectorAll w sel = Some els \<Longrightarrow>
   getElementsContainingText w sel (Some txt) =
     Promise (Inr (Array (map Element (filter (\<lambda>n. trim (txtProp w n) = trim txt) els))))"
  by (simp add: getElementsContainingText_def driver_findElements_js_def
      findElementsContainingText_def document_querySelectorAll_def
      findElementsContainingText_loop_filter elements_of_map_Element)

theorem getElementsContainingText_trimmed_witness:
  "querySelectorAll shop_busy ''nav a'' = Some [node_boots, node_boots_padded, node_gloves] \<and>
   getElementsContainingText shop_busy ''nav a'' (Some ''Safety Boots  '') =
     Promise (Inr (Array [Element node_boots, Element node_boots_padded]))"
proof -
  have q: "querySelectorAll shop_busy ''nav a'' = Some [node_boots, node_boots_padded, node_gloves]"
    by (simp add: shop_busy_def)
  have f: "filter (\<lambda>n. trim (txtProp shop_busy n) = trim ''Safety Boots  '')
             [node_boots, node_boots_padded, node_gloves] = [node_boots, node_boots_padded]"
    by (simp add: txtProp_def shop_busy_def node_boots_def node_boots_padded_def node_gloves_def
        trim_def is_white_space_def)
  show ?thesis
    using q getElementsContainingText_trimmed [OF q, of "''Safety Boots  ''"] f by simp
qed

section \<open>Clicking hidden elements\<close>

lemma clickHiddenElement_clicks:
  "querySelectorAll w sel = Some els \<Longrightarrow>
   clickHiddenElement w sel txt =
     (Promise (Inr (Array [])),
      w\<lparr>clicked := clicked w @
          filter (\<lambda>n. truthy_str txt \<longrightarrow> strict_eq_str (txtProp w n) txt) els\<rparr>)"
  by (simp add: clickHiddenElement_def driver_findElements_js_def clickElementInDom_def
      document_querySelectorAll_def clickElementInDom_loop_filter)

text \<open>
  Claim C5, as amended. For a selector that matches the nodes \<open>els\<close> and a text to
  match that is not empty, \<^verbatim>\<open>clickHiddenElement\<close> clicks exactly the nodes among them
  whose untrimmed text equals the text to match, in document order and whether they are
  displayed or not; the other nodes receive no click.
\<close>

theorem clickHiddenElement_text_filter:
  "querySelectorAll w sel = Some els \<Longrightarrow> txt \<noteq> [] \<Longrightarrow>
   clickHiddenElement w sel (Some txt) =
     (Promise (Inr (Array [])),
      w\<lparr>clicked := clicked w @ filter (\<lambda>n. txtProp w n = txt) els\<rparr>)"
  by (simp add: clickHiddenElement_clicks truthy_str_def strict_eq_str_def eq_commute)

theorem clickHiddenElement_text_filter_witness:
  "querySelectorAll shop_busy ''nav a'' = Some [node_boots, node_boots_padded, node_gloves] \<and>
   ''Safety Boots'' \<noteq> [] \<and> \<not> displayed node_boots \<and>
   clickHiddenElement shop_busy ''nav a'' (Some ''Safety Boots'') =
     (Promise (Inr (Array [])), shop_busy\<lparr>clicked := [node_boots]\<rparr>)"
proof -
  have q: "querySelectorAll shop_busy ''nav a'' = Some [node_boots, node_boots_padded, node_gloves]"
    by (simp add: shop_busy_def)
  have t: "''Safety Boots'' \<noteq> []" by simp
  have f: "filter (\<lambda>n. txtProp shop_busy n = ''Safety Boots'')
             [node_boots, node_boots_padded, node_gloves] = [node_boots]"
    by (simp add: txtProp_def shop_busy_def node_boots_def node_boots_padded_def node_gloves_def)
  have c: "clicked shop_busy = []" by (simp add: shop_busy_def)
  have d: "\<not> displayed node_boots" by (simp add: node_boots_def)
  show ?thesis
    using q d clickHiddenElement_text_filter [OF q t] f c by simp
qed

text \<open>
  Claim C5 as stated fails for a text to match that is provided and empty: all three
  links are clicked, and none of them has an empty text.
\<close>

theorem clickHiddenElement_empty_text_counterexample:
  "querySelectorAll shop_busy ''nav a'' = Some [node_boots, node_boots_padded, node_gloves] \<and>
   textContent node_boots \<noteq> [] \<and> textContent node_boots_padded \<noteq> [] \<and>
   textContent node_gloves \<noteq> [] \<and>
   clicked (snd (clickHiddenElement shop_busy ''nav a'' (Some []))) =
     [node_boots, node_boots_padded, node_gloves]"
proof -
  have q: "querySelectorAll shop_busy ''nav a'' = Some [node_boots, node_boots_padded, node_gloves]"
    by (simp add: shop_busy_def)
  have c: "clicked shop_busy = []" by (simp add: shop_busy_def)
  have n: "textContent node_boots \<noteq> [] \<and> textContent node_boots_padded \<noteq> [] \<and>
   textContent node_gloves \<noteq> []"
    by (simp add: node_boots_def node_boots_padded_def node_gloves_def)
  show ?thesis
    using q n c by (simp add: clickHiddenElement_clicks [OF q] truthy_str_def)
qed

text \<open>
  Claim C8. For a selector that matches no node, \<^verbatim>\<open>clickHiddenElement\<close> resolves (with
  an empty list of elements) and leaves the window as it was: nothing is clicked.
\<close>

theorem clickHiddenElement_zero_matches:
  "querySelectorAll w sel = Some [] \<Longrightarrow>
   clickHiddenElement w sel txt = (Promise (Inr (Array [])), w)"
  by (simp add: clickHiddenElement_clicks)

theorem clickHiddenElement_zero_matches_witness:
  "querySelectorAll shop_busy ''main .pitem a'' = Some [] \<and>
   clickHiddenElement shop_busy ''main .pitem a'' (Some ''Safety Boots'') =
     (Promise (Inr (Array [])), shop_busy)"
proof -
  have q: "querySelectorAll shop_busy ''main .pitem a'' = Some []"
    by (simp add: shop_busy_def)
  show ?thesis
    using q clickHiddenElement_zero_matches [OF q, of "Some ''Safety Boots''"] by simp
qed

text \<open>
  Claim C10. With the text to match omitted or empty, \<^verbatim>\<open>clickHiddenElement\<close> clicks
  every node the selector matches, in document order, whatever its text.
\<close>

theorem clickHiddenElement_falsy_text:
  "querySelectorAll w sel = Some els \<Longrightarrow> txt = None \<or> txt = Some [] \<Longrightarrow>
   clickHiddenElement w sel txt = (Promise (Inr (Array [])), w\<lparr>clicked := clicked w @ els\<rparr>)"
  by (auto simp: clickHiddenElement_clicks truthy_str_def)

theorem clickHiddenElement_falsy_text_witness:
  "querySelectorAll shop_idle ''nav a'' = Some [node_boots, node_boots_padded, node_gloves] \<and>
   (Some [] = (None :: string option) \<or> Some [] = Some ([] :: string)) \<and>
   textContent node_boots = ''Safety Boots'' \<and>
   clickHiddenElement shop_idle ''nav a'' (Some []) =
     (Promise (Inr (Array [])),
      shop_idle\<lparr>clicked := [node_boots, node_boots_padded, node_gloves]\<rparr>)"
proof -
  have q: "querySelectorAll shop_idle ''nav a'' = Some [node_boots, node_boots_padded, node_gloves]"
    by (simp add: shop_idle_def)
  have t: "Some [] = (None :: string option) \<or> Some [] = Some ([] :: string)" by simp
  have c: "clicked shop_idle = []" by (simp add: shop_idle_def)
  have n: "textContent node_boots = ''Safety Boots''" by (simp add: node_boots_def)
  show ?thesis
    using q n c clickHiddenElement_falsy_text [OF q t] by simp
qed

section \<open>Pseudo-element content\<close>

text \<open>
  Claim C7. When the selector matches no element, \<^verbatim>\<open>getPseudoElementBeforeValue\<close> and
  \<^verbatim>\<open>getPseudoElementAfterValue\<close> resolve to the empty string: not to null, and not
  to a rejection.
\<close>

theorem getPseudoElement_no_base_element:
  "querySelectorAll w sel = Some [] \<Longrightarrow>
   getPseudoElementBeforeValue w sel = Promise (Inr (Str [])) \<and>
   getPseudoElementAfterValue w sel = Promise (Inr (Str []))"
  by (simp add: getPseudoElementBeforeValue_def getPseudoElementAfterValue_def
      driver_executeScript_def getBeforeContentValue_def getAfterContentValue_def
      document_querySelector_def document_querySelectorAll_def)

theorem getPseudoElement_no_base_element_witness:
  "querySelectorAll blank_page ''body header'' = Some [] \<and>
   getPseudoElementBeforeValue blank_page ''body header'' = Promise (Inr (Str [])) \<and>
   getPseudoElementAfterValue blank_page ''body header'' = Promise (Inr (Str []))"
proof -
  have q: "querySelectorAll blank_page ''body header'' = Some []"
    by (simp add: blank_page_def)
  show ?thesis
    using q getPseudoElement_no_base_element [OF q] by simp
qed

section \<open>Clearing cookies and storages\<close>

lemma clearCookies_refused:
  "deleteAllCookiesError s = Some e \<Longrightarrow>
   clearCookies s = (Promise (Inl e), s\<lparr>history := history s @ [DeleteAllCookies]\<rparr>)"
  by (simp add: clearCookies_def driver_deleteAllCookies_def async_def)

lemma clearCookies_deleted:
  "deleteAllCookiesError s = None \<Longrightarrow>
   clearCookies s =
     (Promise (Inr Undefined), s\<lparr>cookies := [], history := history s @ [DeleteAllCookies]\<rparr>)"
  by (simp add: clearCookies_def driver_deleteAllCookies_def async_def)

lemma storage_script_statements:
  "split_on CHR '';'' ''window.localStorage.clear(); window.sessionStorage.clear();'' =
     [''window.localStorage.clear()'', '' window.sessionStorage.clear()'', []]"
  by simp

lemma storage_script_trim:
  "trim ''window.localStorage.clear()'' = ''window.localStorage.clear()''"
  "trim '' window.sessionStorage.clear()'' = ''window.sessionStorage.clear()''"
  "trim [] = []"
  by (simp_all add: trim_def is_white_space_def)

lemma clearStorages_cleared:
  "localStorage s = Some l \<Longrightarrow> sessionStorage s = Some t \<Longrightarrow>
   clearStorages s =
     (Promise (Inr Undefined),
      s\<lparr>localStorage := Some [], sessionStorage := Some [],
        history := history s @
          [ExecuteScript ''window.localStorage.clear(); window.sessionStorage.clear();'']\<rparr>)"
  by (simp add: clearStorages_def driver_executeScript_source_def storage_script_statements
      storage_script_trim run_statement_def async_def)

lemma clearStorages_no_local:
  "localStorage s = None \<Longrightarrow>
   clearStorages s =
     (Promise (Inl (JavascriptError ''SecurityError: window.localStorage'')),
      s\<lparr>history := history s @
          [ExecuteScript ''window.localStorage.clear(); window.sessionStorage.clear();'']\<rparr>)"
  by (simp add: clearStorages_def driver_executeScript_source_def storage_script_statements
      storage_script_trim run_statement_def async_def)

lemma clearStorages_no_session:
  "localStorage s = Some l \<Longrightarrow> sessionStorage s = None \<Longrightarrow>
   clearStorages s =
     (Promise (Inl (JavascriptError ''SecurityError: window.sessionStorage'')),
      s\<lparr>localStorage := Some [],
        history := history s @
          [ExecuteScript ''window.localStorage.clear(); window.sessionStorage.clear();'']\<rparr>)"
  by (simp add: clearStorages_def driver_executeScript_source_def storage_script_statements
      storage_script_trim run_statement_def async_def)

text \<open>
  Claim C9, as amended. Every call of \<^verbatim>\<open>clearCookiesAndStorages\<close> first sends the
  cookie deletion and waits for its answer. When the browser refuses it, the promise
  rejects with that error, the storage script is never sent, and cookies and storages
  stay as they were. When the cookies are deleted, the storage script is sent next: on a
  document with both storages it clears the local and then the session storage and the
  promise resolves; on a document without local storage access the script throws at its
  first statement and the promise rejects; with a local storage but no session storage
  the local storage is cleared and the promise rejects at the second statement.
\<close>

theorem clearCookiesAndStorages_outcomes:
  "(deleteAllCookiesError s0 = Some e \<longrightarrow>
      clearCookiesAndStorages s0 =
        (Promise (Inl e), s0\<lparr>history := history s0 @ [DeleteAllCookies]\<rparr>)) \<and>
   (deleteAllCookiesError s1 = None \<and> localStorage s1 = Some l1 \<and> sessionStorage s1 = Some t1 \<longrightarrow>
      clearCookiesAndStorages s1 =
        (Promise (Inr Undefined),
         s1\<lparr>cookies := [], localStorage := Some [], sessionStorage := Some [],
            history := history s1 @
              [DeleteAllCookies,
               ExecuteScript ''window.localStorage.clear(); window.sessionStorage.clear();'']\<rparr>)) \<and>
   (deleteAllCookiesError s2 = None \<and> localStorage s2 = None \<longrightarrow>
      clearCookiesAndStorages s2 =
        (Promise (Inl (JavascriptError ''SecurityError: window.localStorage'')),
         s2\<lparr>cookies := [],
            history := history s2 @
              [DeleteAllCookies,
               ExecuteScript ''window.localStorage.clear(); window.sessionStorage.clear();'']\<rparr>)) \<and>
   (deleteAllCookiesError s3 = None \<and> localStorage s3 = Some l3 \<and> sessionStorage s3 = None \<longrightarrow>
      clearCookiesAndStorages s3 =
        (Promise (Inl (JavascriptError ''SecurityError: window.sessionStorage'')),
         s3\<lparr>cookies := [], localStorage := Some [],
            history := history s3 @
              [DeleteAllCookies,
               ExecuteScript ''window.localStorage.clear(); window.sessionStorage.clear();'']\<rparr>))"
proof (intro conjI impI)
  assume "deleteAllCookiesError s0 = Some e"
  then show "clearCookiesAndStorages s0 =
      (Promise (Inl e), s0\<lparr>history := history s0 @ [DeleteAllCookies]\<rparr>)"
    by (simp add: clearCookiesAndStorages_def clearCookies_refused async_def)
next
  assume a: "deleteAllCookiesError s1 = None \<and> localStorage s1 = Some l1 \<and> sessionStorage s1 = Some t1"
  let ?s = "s1\<lparr>cookies := [], history := history s1 @ [DeleteAllCookies]\<rparr>"
  have "clearStorages ?s =
     (Promise (Inr Undefined),
      ?s\<lparr>localStorage := Some [], sessionStorage := Some [],
        history := history ?s @
          [ExecuteScript ''window.localStorage.clear(); window.sessionStorage.clear();'']\<rparr>)"
    using a by (intro clearStorages_cleared) simp_all
  with a show "clearCookiesAndStorages s1 =
        (Promise (Inr Undefined),
         s1\<lparr>cookies := [], localStorage := Some [], sessionStorage := Some [],
            history := history s1 @
              [DeleteAllCookies,
               ExecuteScript ''window.localStorage.clear(); window.sessionStorage.clear();'']\<rparr>)"
    by (simp add: clearCookiesAndStorages_def clearCookies_deleted async_def)
next
  assume a: "deleteAllCookiesError s2 = None \<and> localStorage s2 = None"
  let ?s = "s2\<lparr>cookies := [], history := history s2 @ [DeleteAllCookies]\<rparr>"
  have "clearStorages ?s =
     (Promise (Inl (JavascriptError ''SecurityError: window.localStorage'')),
      ?s\<lparr>history := history ?s @
          [ExecuteScript ''window.localStorage.clear(); window.sessionStorage.clear();'']\<rparr>)"
    using a by (intro clearStorages_no_local) simp
  with a show "clearCookiesAndStorages s2 =
        (Promise (Inl (JavascriptError ''SecurityError: window.localStorage'')),
         s2\<lparr>cookies := [],
            history := history s2 @
              [DeleteAllCookies,
               ExecuteScript ''window.localStorage.clear(); window.sessionStorage.clear();'']\<rparr>)"
    by (simp add: clearCookiesAndStorages_def clearCookies_deleted async_def)
next
  assume a: "deleteAllCookiesError s3 = None \<and> localStorage s3 = Some l3 \<and> sessionStorage s3 = None"
  let ?s = "s3\<lparr>cookies := [], history := history s3 @ [DeleteAllCookies]\<rparr>"
  have "clearStorages ?s =
     (Promise (Inl (JavascriptError ''SecurityError: window.sessionStorage'')),
      ?s\<lparr>localStorage := Some [],
        history := history ?s @
          [ExecuteScript ''window.localStorage.clear(); window.sessionStorage.clear();'']\<rparr>)"
    using a by (intro clearStorages_no_session) simp_all
  with a show "clearCookiesAndStorages s3 =
        (Promise (Inl (JavascriptError ''SecurityError: window.sessionStorage'')),
         s3\<lparr>cookies := [], localStorage := Some [],
            history := history s3 @
              [DeleteAllCookies,
               ExecuteScript ''window.localStorage.clear(); window.sessionStorage.clear();'']\<rparr>)"
    by (simp add: clearCookiesAndStorages_def clearCookies_deleted async_def)
qed

theorem clearCookiesAndStorages_outcomes_witness:
  "deleteAllCookiesError refusing_session = Some (WebDriverError ''unable to delete cookies'') \<and>
   clearCookiesAndStorages refusing_session =
     (Promise (Inl (WebDriverError ''unable to delete cookies'')),
      refusing_session\<lparr>history := [DeleteAllCookies]\<rparr>) \<and>
   cookies refusing_session = [(''sid'', ''42'')] \<and>
   localStorage refusing_session = Some [(''basket'', ''boots'')] \<and>
   deleteAllCookiesError fresh_session = None \<and>
   localStorage fresh_session = Some [(''basket'', ''boots'')] \<and>
   sessionStorage fresh_session = Some [(''tab'', ''1'')] \<and>
   clearCookiesAndStorages fresh_session =
     (Promise (Inr Undefined),
      fresh_session\<lparr>cookies := [], localStorage := Some [], sessionStorage := Some [],
        history :=
          [DeleteAllCookies,
           ExecuteScript ''window.localStorage.clear(); window.sessionStorage.clear();'']\<rparr>) \<and>
   deleteAllCookiesError never_navigated = None \<and> localStorage never_navigated = None \<and>
   clearCookiesAndStorages never_navigated =
     (Promise (Inl (JavascriptError ''SecurityError: window.localStorage'')),
      never_navigated\<lparr>cookies := [],
        history :=
          [DeleteAllCookies,
           ExecuteScript ''window.localStorage.clear(); window.sessionStorage.clear();'']\<rparr>) \<and>
   deleteAllCookiesError local_only_session = None \<and>
   localStorage local_only_session = Some [(''basket'', ''boots'')] \<and>
   sessionStorage local_only_session = None \<and>
   clearCookiesAndStorages local_only_session =
     (Promise (Inl (JavascriptError ''SecurityError: window.sessionStorage'')),
      local_only_session\<lparr>cookies := [], localStorage := Some [],
        history :=
          [DeleteAllCookies,
           ExecuteScript ''window.localStorage.clear(); window.sessionStorage.clear();'']\<rparr>)"
proof -
  have r: "deleteAllCookiesError refusing_session = Some (WebDriverError ''unable to delete cookies'')"
    "cookies refusing_session = [(''sid'', ''42'')]"
    "localStorage refusing_session = Some [(''basket'', ''boots'')]"
    "history refusing_session = []"
    by (simp_all add: refusing_session_def fresh_session_def)
  have f: "deleteAllCookiesError fresh_session = None"
    "localStorage fresh_session = Some [(''basket'', ''boots'')]"
    "sessionStorage fresh_session = Some [(''tab'', ''1'')]"
    "history fresh_session = []"
    by (simp_all add: fresh_session_def)
  have n: "deleteAllCookiesError never_navigated = None" "localStorage never_navigated = None"
    "history never_navigated = []"
    by (simp_all add: never_navigated_def)
  have l: "deleteAllCookiesError local_only_session = None"
    "localStorage local_only_session = Some [(''basket'', ''boots'')]"
    "sessionStorage local_only_session = None"
    "history local_only_session = []"
    by (simp_all add: local_only_session_def fresh_session_def)
  show ?thesis
    using r f n l
      clearCookiesAndStorages_outcomes [of refusing_session
        "WebDriverError ''unable to delete cookies''"
        fresh_session "[(''basket'', ''boots'')]" "[(''tab'', ''1'')]"
        never_navigated local_only_session "[(''basket'', ''boots'')]"]
    by simp
qed

text \<open>
  Claim C9 as stated fails on the session of a browser that has not navigated yet: the
  cookie deletion is carried out, the storage script throws at its first statement, the
  clearing of the session storage is never reached, and the promise rejects.
\<close>

theorem clearCookiesAndStorages_never_navigated_counterexample:
  "clearCookiesAndStorages never_navigated =
     (Promise (Inl (JavascriptError ''SecurityError: window.localStorage'')),
      never_navigated\<lparr>history :=
          [DeleteAllCookies,
           ExecuteScript ''window.localStorage.clear(); window.sessionStorage.clear();'']\<rparr>)"
proof -
  have d: "deleteAllCookiesError never_navigated = None"
    by (simp add: never_navigated_def)
  let ?s = "never_navigated\<lparr>cookies := [], history := history never_navigated @ [DeleteAllCookies]\<rparr>"
  have "localStorage ?s = None"
    by (simp add: never_navigated_def)
  then have st: "clearStorages ?s =
     (Promise (Inl (JavascriptError ''SecurityError: window.localStorage'')),
      ?s\<lparr>history := history ?s @
          [ExecuteScript ''window.localStorage.clear(); window.sessionStorage.clear();'']\<rparr>)"
    by (rule clearStorages_no_local)
  have c: "clearCookies never_navigated = (Promise (Inr Undefined), ?s)"
    using d by (rule clearCookies_deleted)
  have "clearCookiesAndStorages never_navigated =
     (Promise (Inl (JavascriptError ''SecurityError: window.localStorage'')),
      ?s\<lparr>history := history ?s @
          [ExecuteScript ''window.localStorage.clear(); window.sessionStorage.clear();'']\<rparr>)"
    unfolding clearCookiesAndStorages_def c using st by (simp add: async_def)
  then show ?thesis
    by (simp add: never_navigated_def)
qed

end
